theory Spec2Isabelle
  imports Complex_Main "HOL-Library.Sublist"
begin

section \<open>The ChatGLM client (langchain/llms/chatglm.py)\<close>

text \<open>
  The class \<^verbatim>\<open>ChatGLM\<close> builds a JSON payload from its configuration, signs the request,
  posts it and unwraps \<^verbatim>\<open>data.choices[0].content\<close> from the reply. The model below follows
  \<^verbatim>\<open>_call\<close> statement by statement. Every raise is a value \<open>Inl e\<close>, the mutation of
  \<^verbatim>\<open>self.history\<close> is explicit state passing, and the collaborators outside the file (the
  import of the signing module, \<^verbatim>\<open>requests.post\<close>, the interpreter's \<^verbatim>\<open>str()\<close>) are the
  fields of an environment record. The requests issued are logged, so that "no network
  call" is a statement about the log. The two \<^verbatim>\<open>logger.debug\<close> lines write to the log of
  the process and touch nothing the call returns or keeps; they are left out.
\<close>

subsection \<open>Python values\<close>

text \<open>
  The values the program handles: what \<^verbatim>\<open>response.json()\<close> can return, and what the
  payload holds. A dict is an association list in insertion order with string keys; a
  well-formed dict has distinct keys. The code passes floats on and never computes with
  them, so they are carried as reals. Strings are byte lists.
\<close>

datatype pyval =
    PyNone
  | PyBool bool
  | PyInt int
  | PyFloat real
  | PyStr string
  | PyList "pyval list"
  | PyDict "(string \<times> pyval) list"

type_synonym pydict = "(string \<times> pyval) list"

text \<open>Exceptions, by class. \<open>PyException m c\<close> is \<^verbatim>\<open>Exception(m)\<close> or \<^verbatim>\<open>Exception(m, c)\<close>.
  \<open>RequestException\<close> and \<open>JSONDecodeError\<close> are the two classes of
  \<^verbatim>\<open>requests.exceptions\<close> the code catches; they carry \<^verbatim>\<open>str(e)\<close>. \<open>OtherError\<close> is any
  other exception a collaborator raises.\<close>

datatype exn =
    PyException string "exn option"
  | ValueError string
  | KeyError pyval
  | IndexError
  | TypeError
  | RequestException string
  | JSONDecodeError string
  | OtherError string

text \<open>\<^verbatim>\<open>key in d\<close> and \<^verbatim>\<open>d[key] = value\<close>: an existing key keeps its position, a new key
  goes to the end. \<^verbatim>\<open>d.update(other)\<close> sets the items of \<open>other\<close> one by one, in order.\<close>

definition dict_contains :: "pydict \<Rightarrow> string \<Rightarrow> bool" where
  "dict_contains d k = (map_of d k \<noteq> None)"

fun setitem :: "pydict \<Rightarrow> string \<Rightarrow> pyval \<Rightarrow> pydict" where
  "setitem [] k v = [(k, v)]"
| "setitem ((k', v') # d) k v =
     (if k' = k then (k', v) # d else (k', v') # setitem d k v)"

definition dict_update :: "pydict \<Rightarrow> pydict \<Rightarrow> pydict" where
  "dict_update d other = fold (\<lambda>(k, v) acc. setitem acc k v) other d"

text \<open>Subscription \<^verbatim>\<open>x[k]\<close> with a string key: a dict looks the key up and raises
  \<^verbatim>\<open>KeyError\<close>; a list or a string refuses a string index and every other value is not
  subscriptable, both \<^verbatim>\<open>TypeError\<close>.\<close>

definition getitem_str :: "pyval \<Rightarrow> string \<Rightarrow> exn + pyval" where
  "getitem_str x k =
     (case x of
        PyDict d \<Rightarrow> (case map_of d k of None \<Rightarrow> Inl (KeyError (PyStr k)) | Some v \<Rightarrow> Inr v)
      | _ \<Rightarrow> Inl TypeError)"

text \<open>Subscription \<^verbatim>\<open>x[i]\<close> with an integer: lists and strings index from either end and
  raise \<^verbatim>\<open>IndexError\<close> out of range; a dict has string keys only, so the integer is a
  missing key; every other value is not subscriptable.\<close>

definition seq_index :: "'a list \<Rightarrow> int \<Rightarrow> 'a option" where
  "seq_index xs i =
     (if 0 \<le> i \<and> i < int (length xs) then Some (xs ! nat i)
      else if i < 0 \<and> - i \<le> int (length xs) then Some (xs ! nat (int (length xs) + i))
      else None)"

definition getitem_int :: "pyval \<Rightarrow> int \<Rightarrow> exn + pyval" where
  "getitem_int x i =
     (case x of
        PyList xs \<Rightarrow> (case seq_index xs i of None \<Rightarrow> Inl IndexError | Some v \<Rightarrow> Inr v)
      | PyStr s \<Rightarrow> (case seq_index s i of None \<Rightarrow> Inl IndexError | Some c \<Rightarrow> Inr (PyStr [c]))
      | PyDict d \<Rightarrow> Inl (KeyError (PyInt i))
      | _ \<Rightarrow> Inl TypeError)"

text \<open>\<^verbatim>\<open>str()\<close> of an integer: its decimal digits, with a minus sign when negative.\<close>

definition digit_char :: "nat \<Rightarrow> char" where
  "digit_char d = char_of (48 + d)"

fun str_nat :: "nat \<Rightarrow> string" where
  "str_nat n = (if n < 10 then [digit_char n] else str_nat (n div 10) @ [digit_char (n mod 10)])"

declare str_nat.simps [simp del]

definition str_int :: "int \<Rightarrow> string" where
  "str_int i = (if i < 0 then CHR ''-'' # str_nat (nat (- i)) else str_nat (nat i))"

subsection \<open>The client, requests and responses\<close>

record ChatGLM =
  endpoint_url :: string
  api_key :: string
  model_kwargs :: "pydict option"
  max_token :: int
  temperature :: real
  history :: "pyval list"
  top_p :: real
  with_history :: bool
  return_type :: "string option"

text \<open>The class defaults.\<close>

definition ChatGLM_default :: ChatGLM where
  "ChatGLM_default =
     \<lparr>endpoint_url = ''http://127.0.0.1:8000/'', api_key = '''', model_kwargs = None,
      max_token = 20000, temperature = 0.1, history = [], top_p = 0.7,
      with_history = False, return_type = Some ''text''\<rparr>"

record request =
  url :: string
  headers :: "(string \<times> string) list"
  json :: pydict

text \<open>A response as the code reads it: \<^verbatim>\<open>status_code\<close>, \<^verbatim>\<open>text\<close>, and what \<^verbatim>\<open>json()\<close>
  returns or raises.\<close>

record response =
  status_code :: int
  text_body :: string
  json_result :: "exn + pyval"

text \<open>\<^verbatim>\<open>str(response)\<close>, which the f-string of line 124 renders: the class defines no
  \<^verbatim>\<open>__str__\<close>, and its \<^verbatim>\<open>__repr__\<close> prints the status code only.\<close>

definition str_response :: "response \<Rightarrow> string" where
  "str_response r = ''<Response ['' @ str_int (status_code r) @ '']>''"

text \<open>The collaborators of \<^verbatim>\<open>_call\<close>. \<open>import_jwt_token\<close> is the outcome of
  \<^verbatim>\<open>from zhipuai.utils import jwt_token\<close>: the exception raised, or the module's
  \<^verbatim>\<open>generate_token\<close>, which may raise itself. \<open>requests_post\<close> is the transport; \<open>py_str\<close>
  is the interpreter's rendering of a parsed value inside an f-string.\<close>

record env =
  import_jwt_token :: "exn + (string \<Rightarrow> exn + string)"
  requests_post :: "request \<Rightarrow> exn + response"
  py_str :: "pyval \<Rightarrow> string"

text \<open>What a call leaves behind: the value returned or the exception raised, the client
  afterwards, and the exchanges with the endpoint in the order they were made.\<close>

record outcome =
  result :: "exn + pyval"
  self_after :: ChatGLM
  exchanges :: "(request \<times> (exn + response)) list"

subsection \<open>The accessor \<^verbatim>\<open>_identifying_params\<close>\<close>

text \<open>\<^verbatim>\<open>self.model_kwargs or {}\<close>: \<^verbatim>\<open>None\<close> and the empty dict are both falsy and both give
  the empty dict.\<close>

definition or_empty :: "pydict option \<Rightarrow> pydict" where
  "or_empty mk = (case mk of None \<Rightarrow> [] | Some d \<Rightarrow> (if d = [] then [] else d))"

definition identifying_params :: "ChatGLM \<Rightarrow> pydict" where
  "identifying_params self =
     (let model_kwargs' = or_empty (model_kwargs self)
      in dict_update (dict_update [] [(''endpoint_url'', PyStr (endpoint_url self))])
           [(''model_kwargs'', PyDict model_kwargs')])"

subsection \<open>The stop-marker helper\<close>

text \<open>
  Modelled from the spec: \<^verbatim>\<open>enforce_stop_tokens\<close> of \<^verbatim>\<open>langchain.llms.utils\<close>, which
  \<^verbatim>\<open>_call\<close> imports and which is not among the sources. The spec, section 4.1 step 8:
  "truncate the extracted text at the first occurrence of any stop marker
  (earliest-position policy: scan all markers, cut at the minimum index found, discard
  everything from that index onward; if none found, return text unchanged)", the markers
  being literal substrings.
\<close>

fun find_marker :: "string \<Rightarrow> string \<Rightarrow> nat option" where
  "find_marker m [] = (if m = [] then Some 0 else None)"
| "find_marker m (c # cs) =
     (if prefix m (c # cs) then Some 0 else map_option Suc (find_marker m cs))"

definition enforce_stop_tokens :: "string \<Rightarrow> string list \<Rightarrow> string" where
  "enforce_stop_tokens text_in stop =
     (case List.map_filter (\<lambda>m. find_marker m text_in) stop of
        [] \<Rightarrow> text_in
      | i # js \<Rightarrow> take (fold min js i) text_in)"

text \<open>The helper scans text. \<^verbatim>\<open>_call\<close> hands it whatever \<^verbatim>\<open>content\<close> held; on a value
  that is not a string there is nothing to scan and the model raises \<^verbatim>\<open>TypeError\<close>.\<close>

definition stop_text :: "pyval \<Rightarrow> string list \<Rightarrow> exn + pyval" where
  "stop_text v stop =
     (case v of PyStr s \<Rightarrow> Inr (PyStr (enforce_stop_tokens s stop)) | _ \<Rightarrow> Inl TypeError)"

subsection \<open>The operation \<^verbatim>\<open>_call\<close>\<close>

definition install_message :: string where
  "install_message = ''Must install zhipuai, use`pip install zhipuai`''"

definition api_key_message :: string where
  "api_key_message =
     ''api_key not provided, you could provide it with '' @
     ''`shell: export API_KEY=xxx` or `code: zhipuai.api_key=xxx`''"

text \<open>Lines 102 to 111: the six built-in fields, then the two updates.\<close>

definition default_fields :: "ChatGLM \<Rightarrow> string \<Rightarrow> pydict" where
  "default_fields self prompt =
     [(''prompt'', PyStr prompt),
      (''temperature'', PyFloat (temperature self)),
      (''history'', PyList (history self)),
      (''max_length'', PyInt (max_token self)),
      (''top_p'', PyFloat (top_p self)),
      (''return_type'', (case return_type self of None \<Rightarrow> PyNone | Some s \<Rightarrow> PyStr s))]"

definition build_payload :: "ChatGLM \<Rightarrow> string \<Rightarrow> pydict \<Rightarrow> pydict" where
  "build_payload self prompt kwargs =
     (let model_kwargs' = or_empty (model_kwargs self);
          payload = default_fields self prompt;
          payload = dict_update payload model_kwargs';
          payload = dict_update payload kwargs
      in payload)"

text \<open>Lines 87 to 90 and 101: the headers.\<close>

definition build_headers :: "string \<Rightarrow> (string \<times> string) list" where
  "build_headers token =
     [(''Accept'', ''application/json''),
      (''Content-Type'', ''application/json; charset=UTF-8''),
      (''Authorization'', token)]"

text \<open>Lines 126 to 142: the parsed body and the text. Only a \<^verbatim>\<open>JSONDecodeError\<close> is caught;
  the two \<^verbatim>\<open>ValueError\<close>s raised inside the \<^verbatim>\<open>try\<close> and whatever the subscriptions raise
  pass through.\<close>

definition extract_text :: "env \<Rightarrow> response \<Rightarrow> exn + (pyval \<times> pyval)" where
  "extract_text e response =
     (case json_result response of
        Inl (JSONDecodeError m) \<Rightarrow>
          Inl (ValueError
                (''Error raised during decoding response from inference endpoint: '' @ m @
                 ''.'' @ [CHR 0x0A] @ ''Response: '' @ text_body response))
      | Inl other \<Rightarrow> Inl other
      | Inr parsed_response \<Rightarrow>
          (case parsed_response of
             PyDict d \<Rightarrow>
               (if dict_contains d ''data'' then
                  (case getitem_str parsed_response ''data'' of
                     Inl x \<Rightarrow> Inl x
                   | Inr data \<Rightarrow>
                  (case getitem_str data ''choices'' of
                     Inl x \<Rightarrow> Inl x
                   | Inr choices \<Rightarrow>
                  (case getitem_int choices 0 of
                     Inl x \<Rightarrow> Inl x
                   | Inr choice \<Rightarrow>
                  (case getitem_str choice ''content'' of
                     Inl x \<Rightarrow> Inl x
                   | Inr text_out \<Rightarrow> Inr (text_out, parsed_response)))))
                else Inl (ValueError (''No content in response : '' @ py_str e parsed_response)))
           | _ \<Rightarrow> Inl (ValueError (''Unexpected response type: '' @ py_str e parsed_response))))"

text \<open>Lines 144 to 149: the stop markers first, then the history, then the return.\<close>

definition finish :: "ChatGLM \<Rightarrow> string list option \<Rightarrow> pyval \<Rightarrow> pyval \<Rightarrow> (exn + pyval) \<times> ChatGLM" where
  "finish self stop text_out parsed_response =
     (case (case stop of None \<Rightarrow> Inr text_out | Some markers \<Rightarrow> stop_text text_out markers) of
        Inl x \<Rightarrow> (Inl x, self)
      | Inr text_final \<Rightarrow>
          (if with_history self then
             (case getitem_str parsed_response ''data'' of
                Inl x \<Rightarrow> (Inl x, self)
              | Inr data \<Rightarrow>
             (case getitem_str data ''choices'' of
                Inl x \<Rightarrow> (Inl x, self)
              | Inr choices \<Rightarrow>
                  (Inr text_final,
                   self\<lparr>history := history self @ [PyList [PyNone, choices]]\<rparr>)))
           else (Inr text_final, self)))"

text \<open>Lines 116 to 149: what follows the POST, given what it returned or raised.\<close>

definition after_post :: "env \<Rightarrow> ChatGLM \<Rightarrow> string list option \<Rightarrow> exn + response \<Rightarrow> (exn + pyval) \<times> ChatGLM" where
  "after_post e self stop posted =
     (case posted of
        Inl (RequestException m) \<Rightarrow>
          (Inl (ValueError (''Error raised by inference endpoint: '' @ m)), self)
      | Inl other \<Rightarrow> (Inl other, self)
      | Inr response \<Rightarrow>
          (if status_code response \<noteq> 200 then
             (Inl (ValueError (''Failed with response: '' @ str_response response)), self)
           else
             (case extract_text e response of
                Inl x \<Rightarrow> (Inl x, self)
              | Inr (text_out, parsed_response) \<Rightarrow> finish self stop text_out parsed_response)))"

text \<open>The whole of \<^verbatim>\<open>_call\<close>: the import, the key, the token, the payload, the POST.\<close>

definition ChatGLM_call :: "env \<Rightarrow> ChatGLM \<Rightarrow> string \<Rightarrow> string list option \<Rightarrow> pydict \<Rightarrow> outcome" where
  "ChatGLM_call e self prompt stop kwargs =
     (case import_jwt_token e of
        Inl x \<Rightarrow>
          \<lparr>result = Inl (PyException install_message (Some x)), self_after = self,
           exchanges = []\<rparr>
      | Inr generate_token \<Rightarrow>
          (if api_key self = [] then
             \<lparr>result = Inl (PyException api_key_message None), self_after = self,
              exchanges = []\<rparr>
           else
             (case generate_token (api_key self) of
                Inl x \<Rightarrow> \<lparr>result = Inl x, self_after = self, exchanges = []\<rparr>
              | Inr jwt_api_key \<Rightarrow>
                  (let req = \<lparr>url = endpoint_url self, headers = build_headers jwt_api_key,
                              json = build_payload self prompt kwargs\<rparr>;
                       posted = requests_post e req;
                       (res, self') = after_post e self stop posted
                   in \<lparr>result = res, self_after = self', exchanges = [(req, posted)]\<rparr>))))"

subsection \<open>The failures of a call, by kind\<close>

text \<open>
  The specification names five failures. The code has no such classes: it raises
  \<^verbatim>\<open>Exception\<close> and \<^verbatim>\<open>ValueError\<close> with a message. Each name stands for the raise
  statements it describes: \<open>DependencyMissingError\<close> for line 94, \<open>ConfigurationError\<close> for
  line 96, \<open>TransportError\<close> for line 119, \<open>UpstreamError\<close> for line 124 and
  \<open>ResponseParseError\<close> for lines 134, 136 and 139. An exception raised by none of them has
  no kind.
\<close>

datatype error_kind =
    ConfigurationError
  | DependencyMissingError
  | TransportError
  | UpstreamError
  | ResponseParseError

definition error_kind_of :: "exn \<Rightarrow> error_kind option" where
  "error_kind_of x =
     (case x of
        PyException m cause \<Rightarrow>
          (if m = install_message \<and> cause \<noteq> None then Some DependencyMissingError
           else if m = api_key_message \<and> cause = None then Some ConfigurationError
           else None)
      | ValueError m \<Rightarrow>
          (if prefix ''Error raised by inference endpoint: '' m then Some TransportError
           else if prefix ''Failed with response: '' m then Some UpstreamError
           else if prefix ''No content in response : '' m then Some ResponseParseError
           else if prefix ''Unexpected response type: '' m then Some ResponseParseError
           else if prefix ''Error raised during decoding response from inference endpoint: '' m
             then Some ResponseParseError
           else None)
      | _ \<Rightarrow> None)"

definition failure_kind :: "outcome \<Rightarrow> error_kind option" where
  "failure_kind out = (case result out of Inl x \<Rightarrow> error_kind_of x | Inr v \<Rightarrow> None)"

definition succeeded :: "outcome \<Rightarrow> bool" where
  "succeeded out = (case result out of Inl x \<Rightarrow> False | Inr v \<Rightarrow> True)"

text \<open>The response a call received, when its POST returned one.\<close>

definition received :: "outcome \<Rightarrow> response option" where
  "received out =
     (case exchanges out of [(req, Inr response)] \<Rightarrow> Some response | _ \<Rightarrow> None)"

text \<open>The request a call sent, when it sent one.\<close>

definition sent :: "outcome \<Rightarrow> request option" where
  "sent out = (case exchanges out of [(req, posted)] \<Rightarrow> Some req | _ \<Rightarrow> None)"

text \<open>A field of the payload a call sent.\<close>

definition sent_field :: "outcome \<Rightarrow> string \<Rightarrow> pyval option" where
  "sent_field out k = (case sent out of None \<Rightarrow> None | Some req \<Rightarrow> map_of (json req) k)"

subsection \<open>Sample collaborators and replies\<close>

definition sample_generate_token :: "string \<Rightarrow> exn + string" where
  "sample_generate_token k = Inr (''signed:'' @ k)"

definition env_replying :: "response \<Rightarrow> env" where
  "env_replying r =
     \<lparr>import_jwt_token = Inr sample_generate_token,
      requests_post = (\<lambda>req. Inr r),
      py_str = (\<lambda>v. ''<value>'')\<rparr>"

definition env_without_zhipuai :: env where
  "env_without_zhipuai =
     \<lparr>import_jwt_token = Inl (OtherError ''No module named zhipuai''),
      requests_post = (\<lambda>req. Inl (RequestException ''unreachable'')),
      py_str = (\<lambda>v. ''<value>'')\<rparr>"

definition json_reply :: "int \<Rightarrow> string \<Rightarrow> pyval \<Rightarrow> response" where
  "json_reply status body parsed =
     \<lparr>status_code = status, text_body = body, json_result = Inr parsed\<rparr>"

definition model_reply :: response where
  "model_reply =
     json_reply 200 ''{\"data\":{\"choices\":[{\"content\":\"I am a model.\"}]}}''
       (PyDict [(''data'', PyDict [(''choices'',
          PyList [PyDict [(''content'', PyStr ''I am a model.'')]])])])"

definition keyed_client :: ChatGLM where
  "keyed_client = ChatGLM_default\<lparr>api_key := ''id.secret''\<rparr>"

definition reply_without_choices :: response where
  "reply_without_choices = json_reply 200 ''{\"data\":{}}'' (PyDict [(''data'', PyDict [])])"

definition boom_reply :: response where
  "boom_reply = json_reply 500 ''{\"error\":\"boom\"}'' (PyDict [(''error'', PyStr ''boom'')])"

definition bang_reply :: response where
  "bang_reply = json_reply 500 ''{\"error\":\"bang\"}'' (PyDict [(''error'', PyStr ''bang'')])"

definition list_reply :: response where
  "list_reply = json_reply 200 ''[]'' (PyList [])"

definition unexpected_reply :: response where
  "unexpected_reply =
     json_reply 200 ''{\"unexpected\":\"shape\"}'' (PyDict [(''unexpected'', PyStr ''shape'')])"

definition tuned_client :: ChatGLM where
  "tuned_client =
     keyed_client\<lparr>model_kwargs := Some [(''temperature'', PyFloat 0.5), (''top_p'', PyFloat 0.9)]\<rparr>"

definition earlier_entry :: pyval where
  "earlier_entry = PyList [PyNone, PyList [PyDict [(''content'', PyStr ''Hello.'')]]]"

definition history_client :: ChatGLM where
  "history_client = keyed_client\<lparr>with_history := True, history := [earlier_entry]\<rparr>"

subsection \<open>The shape of a reply\<close>

text \<open>The value at \<^verbatim>\<open>data.choices[0].content\<close> of a parsed body, when the body is a
  mapping, \<^verbatim>\<open>data\<close> is a mapping, \<^verbatim>\<open>choices\<close> is a list that starts with a mapping, and that
  mapping has the key \<^verbatim>\<open>content\<close>.\<close>

definition content_at :: "pyval \<Rightarrow> pyval option" where
  "content_at parsed =
     (case parsed of
        PyDict body \<Rightarrow>
          (case map_of body ''data'' of
             Some (PyDict data) \<Rightarrow>
               (case map_of data ''choices'' of
                  Some (PyList (PyDict choice # others)) \<Rightarrow> map_of choice ''content''
                | _ \<Rightarrow> None)
           | _ \<Rightarrow> None)
      | _ \<Rightarrow> None)"

text \<open>The exceptions a failing subscription raises.\<close>

definition lookup_error :: "exn \<Rightarrow> bool" where
  "lookup_error x = (case x of KeyError k \<Rightarrow> True | IndexError \<Rightarrow> True | TypeError \<Rightarrow> True
     | _ \<Rightarrow> False)"

subsection \<open>Runs of calls and the history\<close>

text \<open>The \<^verbatim>\<open>choices\<close> of a reply: the value under \<^verbatim>\<open>data.choices\<close> of its parsed body, as
  the endpoint sent it.\<close>

definition reply_choices :: "response \<Rightarrow> pyval option" where
  "reply_choices response =
     (case json_result response of
        Inr (PyDict body) \<Rightarrow>
          (case map_of body ''data'' of
             Some (PyDict data) \<Rightarrow> map_of data ''choices''
           | _ \<Rightarrow> None)
      | _ \<Rightarrow> None)"

definition raw_choices :: "outcome \<Rightarrow> pyval option" where
  "raw_choices out = (case received out of None \<Rightarrow> None | Some response \<Rightarrow> reply_choices response)"

definition history_entry :: "pyval \<Rightarrow> pyval" where
  "history_entry choices = PyList [PyNone, choices]"

text \<open>A run of calls on one client: each call starts from the client the call before it
  left.\<close>

record invocation =
  call_env :: env
  call_prompt :: string
  call_stop :: "string list option"
  call_kwargs :: pydict

fun run_calls :: "ChatGLM \<Rightarrow> invocation list \<Rightarrow> outcome list \<times> ChatGLM" where
  "run_calls self [] = ([], self)"
| "run_calls self (c # cs) =
     (let out = ChatGLM_call (call_env c) self (call_prompt c) (call_stop c) (call_kwargs c);
          (outs, self') = run_calls (self_after out) cs
      in (out # outs, self'))"

text \<open>The choices of the calls of a run that returned, in order.\<close>

definition returned_choices :: "outcome list \<Rightarrow> pyval list" where
  "returned_choices outs = List.map_filter raw_choices (filter succeeded outs)"

definition invoke :: "response \<Rightarrow> string list option \<Rightarrow> invocation" where
  "invoke r stop =
     \<lparr>call_env = env_replying r, call_prompt = ''Who are you?'', call_stop = stop,
      call_kwargs = []\<rparr>"

definition hello_reply :: response where
  "hello_reply =
     json_reply 200 ''{\"data\":{\"choices\":[{\"content\":\"Hello.\"}]}}''
       (PyDict [(''data'', PyDict [(''choices'', PyList [PyDict [(''content'', PyStr ''Hello.'')]])])])"

definition recording_client :: ChatGLM where
  "recording_client = keyed_client\<lparr>with_history := True\<rparr>"

definition two_calls :: "invocation list" where
  "two_calls = [invoke model_reply (Some [''am'']), invoke hello_reply None]"

subsection \<open>Occurrences of a stop marker\<close>

text \<open>The marker \<open>m\<close> occurs in \<open>t\<close> starting at index \<open>i\<close>: it is the slice of \<open>t\<close> of its
  own length that starts there.\<close>

definition occurs_at :: "string \<Rightarrow> string \<Rightarrow> nat \<Rightarrow> bool" where
  "occurs_at m t i = (i \<le> length t \<and> take (length m) (drop i t) = m)"

text \<open>Some marker of \<open>stop\<close> starts at index \<open>i\<close> of \<open>t\<close>.\<close>

definition marker_at :: "string list \<Rightarrow> string \<Rightarrow> nat \<Rightarrow> bool" where
  "marker_at stop t i = list_ex (\<lambda>m. occurs_at m t i) stop"

section \<open>Properties\<close>

subsection \<open>Reaching the endpoint\<close>

lemma install_message_not_key: "install_message \<noteq> api_key_message"
  by (simp add: install_message_def api_key_message_def)

text \<open>When a call has a response in its log, the rest of the call is \<open>after_post\<close> on it.\<close>

lemma received_call:
  assumes "received (ChatGLM_call e self prompt stop kwargs) = Some response"
  shows "result (ChatGLM_call e self prompt stop kwargs)
           = fst (after_post e self stop (Inr response))
       \<and> self_after (ChatGLM_call e self prompt stop kwargs)
           = snd (after_post e self stop (Inr response))"
  using assms
  by (auto simp: ChatGLM_call_def received_def Let_def split: sum.splits if_splits prod.splits)

lemma extract_text_shaped:
  assumes "json_result response = Inr (PyDict body)"
    and "map_of body ''data'' = Some (PyDict data)"
    and "map_of data ''choices'' = Some (PyList (PyDict choice # others))"
    and "map_of choice ''content'' = Some content"
  shows "extract_text e response = Inr (content, PyDict body)"
  using assms
  by (simp add: extract_text_def dict_contains_def getitem_str_def getitem_int_def seq_index_def)

subsection \<open>The identifying parameters\<close>

text \<open>
  C8. For every client, \<^verbatim>\<open>_identifying_params\<close> is the mapping with exactly the two keys
  \<^verbatim>\<open>endpoint_url\<close> and \<^verbatim>\<open>model_kwargs\<close>, the latter the empty mapping when unset. Nothing
  else of the client shows: whatever the API key and the other seven fields are changed
  to, the accessor returns the same mapping.
\<close>

theorem identifying_params_two_keys:
  "identifying_params self =
     [(''endpoint_url'', PyStr (endpoint_url self)),
      (''model_kwargs'', PyDict (case model_kwargs self of None \<Rightarrow> [] | Some d \<Rightarrow> d))]
   \<and> identifying_params
       (self\<lparr>api_key := k, max_token := n, temperature := t, history := h, top_p := p,
              with_history := w, return_type := r\<rparr>) = identifying_params self"
  by (simp add: identifying_params_def dict_update_def or_empty_def split: option.splits)

subsection \<open>The order of the two checks before the request\<close>

text \<open>
  C10. The import of the signing module is tried before the API key is looked at. With an
  empty key and a failing import the call raises the exception of line 94, the
  \<open>DependencyMissingError\<close>, and posts nothing; and a call that fails with the
  \<open>ConfigurationError\<close> is one whose import succeeded.
\<close>

theorem dependency_check_precedes_key_check:
  "(api_key self = [] \<and> import_jwt_token e = Inl x \<longrightarrow>
      result (ChatGLM_call e self prompt stop kwargs) = Inl (PyException install_message (Some x))
      \<and> failure_kind (ChatGLM_call e self prompt stop kwargs) = Some DependencyMissingError
      \<and> exchanges (ChatGLM_call e self prompt stop kwargs) = [])
   \<and> (failure_kind (ChatGLM_call e self prompt stop kwargs) = Some ConfigurationError \<longrightarrow>
      (\<exists>generate_token. import_jwt_token e = Inr generate_token))"
proof (intro conjI impI)
  assume a: "api_key self = [] \<and> import_jwt_token e = Inl x"
  then show "result (ChatGLM_call e self prompt stop kwargs)
      = Inl (PyException install_message (Some x))"
    by (simp add: ChatGLM_call_def)
  from a show "failure_kind (ChatGLM_call e self prompt stop kwargs) = Some DependencyMissingError"
    by (simp add: ChatGLM_call_def failure_kind_def error_kind_of_def)
  from a show "exchanges (ChatGLM_call e self prompt stop kwargs) = []"
    by (simp add: ChatGLM_call_def)
next
  assume k: "failure_kind (ChatGLM_call e self prompt stop kwargs) = Some ConfigurationError"
  show "\<exists>generate_token. import_jwt_token e = Inr generate_token"
  proof (cases "import_jwt_token e")
    case (Inl x)
    then have "failure_kind (ChatGLM_call e self prompt stop kwargs) = Some DependencyMissingError"
      by (simp add: ChatGLM_call_def failure_kind_def error_kind_of_def)
    with k show ?thesis by simp
  next
    case (Inr g)
    then show ?thesis by blast
  qed
qed

theorem dependency_check_precedes_key_check_witness:
  "result (ChatGLM_call env_without_zhipuai ChatGLM_default ''Who are you?'' None []) =
     Inl (PyException install_message (Some (OtherError ''No module named zhipuai'')))
   \<and> failure_kind (ChatGLM_call (env_replying model_reply) ChatGLM_default ''Who are you?'' None [])
       = Some ConfigurationError
   \<and> (\<exists>g. import_jwt_token (env_replying model_reply) = Inr g)"
proof -
  have a: "api_key ChatGLM_default = [] \<and>
           import_jwt_token env_without_zhipuai = Inl (OtherError ''No module named zhipuai'')"
    by (simp add: ChatGLM_default_def env_without_zhipuai_def)
  have b: "failure_kind
             (ChatGLM_call (env_replying model_reply) ChatGLM_default ''Who are you?'' None [])
           = Some ConfigurationError"
    by (simp add: ChatGLM_call_def env_replying_def ChatGLM_default_def failure_kind_def
        error_kind_of_def install_message_not_key [symmetric])
  from a b
    dependency_check_precedes_key_check [of ChatGLM_default env_without_zhipuai
      "OtherError ''No module named zhipuai''" "''Who are you?''" None "[]"]
    dependency_check_precedes_key_check [of ChatGLM_default "env_replying model_reply"
      "OtherError ''No module named zhipuai''" "''Who are you?''" None "[]"]
  show ?thesis by blast
qed

subsection \<open>The empty API key\<close>

text \<open>
  C3, as stated: every client with an empty API key fails with a \<open>ConfigurationError\<close>. It
  does not where the signing module cannot be imported: the default client has an empty
  key, and there the call fails with the \<open>DependencyMissingError\<close> of line 94.
\<close>

theorem empty_key_dependency_missing_counterexample:
  "api_key ChatGLM_default = []
   \<and> failure_kind (ChatGLM_call env_without_zhipuai ChatGLM_default ''Who are you?'' None [])
       = Some DependencyMissingError
   \<and> failure_kind (ChatGLM_call env_without_zhipuai ChatGLM_default ''Who are you?'' None [])
       \<noteq> Some ConfigurationError"
  by (simp add: ChatGLM_call_def env_without_zhipuai_def ChatGLM_default_def failure_kind_def
      error_kind_of_def)

text \<open>
  C3, amended. For every client with an empty API key the call fails, posts nothing and
  leaves the client as it was; and where the signing module is importable, the failure is
  the \<open>ConfigurationError\<close> of line 96.
\<close>

theorem empty_key_fails_before_post:
  assumes "api_key self = []"
  shows "exchanges (ChatGLM_call e self prompt stop kwargs) = []
    \<and> self_after (ChatGLM_call e self prompt stop kwargs) = self
    \<and> \<not> succeeded (ChatGLM_call e self prompt stop kwargs)
    \<and> (\<forall>generate_token. import_jwt_token e = Inr generate_token \<longrightarrow>
         result (ChatGLM_call e self prompt stop kwargs) = Inl (PyException api_key_message None)
         \<and> failure_kind (ChatGLM_call e self prompt stop kwargs) = Some ConfigurationError)"
  using assms
  by (cases "import_jwt_token e")
     (simp_all add: ChatGLM_call_def succeeded_def failure_kind_def error_kind_of_def
        install_message_not_key [symmetric])

theorem empty_key_fails_before_post_witness:
  "api_key ChatGLM_default = []
   \<and> exchanges (ChatGLM_call (env_replying model_reply) ChatGLM_default ''Who are you?'' None [])
       = []
   \<and> failure_kind (ChatGLM_call (env_replying model_reply) ChatGLM_default ''Who are you?'' None [])
       = Some ConfigurationError"
proof -
  have a: "api_key ChatGLM_default = []" by (simp add: ChatGLM_default_def)
  have b: "import_jwt_token (env_replying model_reply) = Inr sample_generate_token"
    by (simp add: env_replying_def)
  from a b
    empty_key_fails_before_post [OF a, of "env_replying model_reply" "''Who are you?''" None "[]"]
  show ?thesis by blast
qed

subsection \<open>The text returned without stop markers\<close>

text \<open>
  C6. For every call that received a response with status 200 whose parsed body holds a
  string at \<^verbatim>\<open>data.choices[0].content\<close>, and that was given no stop markers, the value
  returned is exactly that string. The witness is the example of the specification: the
  reply \<^verbatim>\<open>{"data":{"choices":[{"content":"I am a model."}]}}\<close> gives \<^verbatim>\<open>I am a model.\<close>
\<close>

theorem returns_content_without_stop:
  assumes "received (ChatGLM_call e self prompt None kwargs) = Some response"
    and "status_code response = 200"
    and "json_result response = Inr (PyDict body)"
    and "map_of body ''data'' = Some (PyDict data)"
    and "map_of data ''choices'' = Some (PyList (PyDict choice # others))"
    and "map_of choice ''content'' = Some (PyStr content)"
  shows "result (ChatGLM_call e self prompt None kwargs) = Inr (PyStr content)"
proof -
  have "extract_text e response = Inr (PyStr content, PyDict body)"
    using assms(3-6) by (rule extract_text_shaped)
  then have "fst (after_post e self None (Inr response)) = Inr (PyStr content)"
    using assms(2,4,5)
    by (simp add: after_post_def finish_def getitem_str_def)
  with received_call [OF assms(1)] show ?thesis by simp
qed

theorem returns_content_without_stop_witness:
  "received (ChatGLM_call (env_replying model_reply) keyed_client ''Who are you?'' None [])
     = Some model_reply
   \<and> result (ChatGLM_call (env_replying model_reply) keyed_client ''Who are you?'' None [])
     = Inr (PyStr ''I am a model.'')"
proof -
  have r: "received (ChatGLM_call (env_replying model_reply) keyed_client ''Who are you?'' None [])
     = Some model_reply"
    by (simp add: received_def ChatGLM_call_def env_replying_def keyed_client_def
        ChatGLM_default_def sample_generate_token_def Let_def split: prod.splits)
  have s: "status_code model_reply = 200" by (simp add: model_reply_def json_reply_def)
  have j: "json_result model_reply = Inr (PyDict [(''data'', PyDict [(''choices'',
          PyList [PyDict [(''content'', PyStr ''I am a model.'')]])])])"
    by (simp add: model_reply_def json_reply_def)
  have d: "map_of [(''data'', PyDict [(''choices'',
          PyList [PyDict [(''content'', PyStr ''I am a model.'')]])])] ''data''
        = Some (PyDict [(''choices'', PyList [PyDict [(''content'', PyStr ''I am a model.'')]])])"
    by simp
  have c: "map_of [(''choices'', PyList [PyDict [(''content'', PyStr ''I am a model.'')]])] ''choices''
        = Some (PyList (PyDict [(''content'', PyStr ''I am a model.'')] # []))"
    by simp
  have t: "map_of [(''content'', PyStr ''I am a model.'')] ''content''
        = Some (PyStr ''I am a model.'')"
    by simp
  have "result (ChatGLM_call (env_replying model_reply) keyed_client ''Who are you?'' None [])
     = Inr (PyStr ''I am a model.'')"
    by (rule returns_content_without_stop [OF r s j d c t])
  with r show ?thesis by simp
qed

subsection \<open>The decimal rendering of the status code\<close>

text \<open>Two integers with the same digits are equal, so the message of line 124 determines
  the status code it was built from.\<close>

lemma digit_char_inj:
  assumes "digit_char a = digit_char b" "a < 10" "b < 10"
  shows "a = b"
proof -
  have "(of_char (digit_char a) :: nat) = of_char (digit_char b)" using assms(1) by simp
  then have "(48 + a) mod 256 = (48 + b) mod 256" by (simp add: digit_char_def)
  with assms(2,3) show ?thesis by simp
qed

lemma digit_char_not_minus:
  assumes "d < 10"
  shows "digit_char d \<noteq> CHR ''-''"
proof
  assume "digit_char d = CHR ''-''"
  then have "(of_char (digit_char d) :: nat) = of_char (CHR ''-'')" by simp
  then have "(48 + d) mod 256 = 45" by (simp add: digit_char_def)
  with assms show False by simp
qed

lemma str_nat_not_Nil: "str_nat n \<noteq> []"
  by (subst str_nat.simps) simp

lemma str_nat_hd_digit: "\<exists>d cs. d < 10 \<and> str_nat n = digit_char d # cs"
proof (induction n rule: str_nat.induct)
  case (1 n)
  show ?case
  proof (cases "n < 10")
    case True
    then show ?thesis by (subst str_nat.simps) auto
  next
    case False
    with 1 obtain d cs where "d < 10" "str_nat (n div 10) = digit_char d # cs" by auto
    with False show ?thesis by (subst str_nat.simps) auto
  qed
qed

lemma str_nat_inj: "str_nat a = str_nat b \<Longrightarrow> a = b"
proof (induction a arbitrary: b rule: str_nat.induct)
  case (1 a)
  show ?case
  proof (cases "a < 10")
    case True
    note a = True
    show ?thesis
    proof (cases "b < 10")
      case True
      from 1(2) a True have "digit_char a = digit_char b"
        by (simp add: str_nat.simps [of a] str_nat.simps [of b])
      from this a True show ?thesis by (rule digit_char_inj)
    next
      case False
      from 1(2) a False have "[digit_char a] = str_nat (b div 10) @ [digit_char (b mod 10)]"
        by (simp add: str_nat.simps [of a] str_nat.simps [of b])
      then have "str_nat (b div 10) = []" by simp
      with str_nat_not_Nil show ?thesis by blast
    qed
  next
    case False
    note a = False
    show ?thesis
    proof (cases "b < 10")
      case True
      from 1(2) a True have "str_nat (a div 10) @ [digit_char (a mod 10)] = [digit_char b]"
        by (simp add: str_nat.simps [of a] str_nat.simps [of b])
      then have "str_nat (a div 10) = []" by simp
      with str_nat_not_Nil show ?thesis by blast
    next
      case False
      from 1(2) a False
      have "str_nat (a div 10) @ [digit_char (a mod 10)] = str_nat (b div 10) @ [digit_char (b mod 10)]"
        by (simp add: str_nat.simps [of a] str_nat.simps [of b])
      then have q: "str_nat (a div 10) = str_nat (b div 10)"
        and r: "digit_char (a mod 10) = digit_char (b mod 10)" by simp_all
      from 1(1) [OF a q] have "a div 10 = b div 10" .
      moreover from r have "a mod 10 = b mod 10" by (rule digit_char_inj) simp_all
      ultimately show ?thesis by (metis div_mult_mod_eq)
    qed
  qed
qed

lemma str_int_inj: "str_int i = str_int j \<Longrightarrow> i = j"
proof -
  assume e: "str_int i = str_int j"
  have neg: "str_nat n \<noteq> CHR ''-'' # cs" for n cs
  proof
    assume m: "str_nat n = CHR ''-'' # cs"
    obtain d ds where d: "d < 10" "str_nat n = digit_char d # ds"
      using str_nat_hd_digit [of n] by blast
    from m d(2) have "digit_char d = CHR ''-''" by simp
    with digit_char_not_minus [OF d(1)] show False by simp
  qed
  show ?thesis
  proof (cases "i < 0")
    case True
    note i = True
    show ?thesis
    proof (cases "j < 0")
      case True
      with i e have "str_nat (nat (- i)) = str_nat (nat (- j))" by (simp add: str_int_def)
      then have "nat (- i) = nat (- j)" by (rule str_nat_inj)
      with i True show ?thesis by simp
    next
      case False
      with i e neg show ?thesis by (simp add: str_int_def) metis
    qed
  next
    case False
    note i = False
    show ?thesis
    proof (cases "j < 0")
      case True
      with i e neg show ?thesis by (simp add: str_int_def)
    next
      case False
      with i e have "str_nat (nat i) = str_nat (nat j)" by (simp add: str_int_def)
      then have "nat i = nat j" by (rule str_nat_inj)
      with i False show ?thesis by simp
    qed
  qed
qed

lemma str_response_status: "str_response r = str_response r' \<Longrightarrow> status_code r = status_code r'"
  by (simp add: str_response_def str_int_inj)

subsection \<open>Replies of an unexpected shape\<close>

lemma received_sample:
  "received (ChatGLM_call (env_replying r) keyed_client ''Who are you?'' stop []) = Some r"
  by (simp add: received_def ChatGLM_call_def env_replying_def keyed_client_def
      ChatGLM_default_def sample_generate_token_def Let_def split: prod.splits)

lemma lookup_error_no_kind: "lookup_error x \<Longrightarrow> error_kind_of x = None"
  by (cases x) (simp_all add: lookup_error_def error_kind_of_def)

lemma after_post_extract_fails:
  assumes "status_code response = 200" and "extract_text e response = Inl x"
  shows "after_post e self stop (Inr response) = (Inl x, self)"
  using assms by (simp add: after_post_def)

lemma call_extract_fails:
  assumes "received (ChatGLM_call e self prompt stop kwargs) = Some response"
    and "status_code response = 200"
    and "extract_text e response = Inl x"
  shows "result (ChatGLM_call e self prompt stop kwargs) = Inl x
       \<and> self_after (ChatGLM_call e self prompt stop kwargs) = self"
  using received_call [OF assms(1)] after_post_extract_fails [OF assms(2,3)] by simp

text \<open>The two shapes that lines 129 to 136 guard: a top level that is not a mapping, and a
  mapping without the key \<^verbatim>\<open>data\<close>. Both raise a \<^verbatim>\<open>ValueError\<close>, a \<open>ResponseParseError\<close>, and
  leave the client as it was.\<close>

lemma guarded_shapes_raise_ValueError:
  assumes "received (ChatGLM_call e self prompt stop kwargs) = Some response"
    and "status_code response = 200"
    and "json_result response = Inr parsed"
  shows "((\<forall>body. parsed \<noteq> PyDict body) \<longrightarrow>
           result (ChatGLM_call e self prompt stop kwargs)
             = Inl (ValueError (''Unexpected response type: '' @ py_str e parsed))
           \<and> failure_kind (ChatGLM_call e self prompt stop kwargs) = Some ResponseParseError
           \<and> self_after (ChatGLM_call e self prompt stop kwargs) = self)
       \<and> (\<forall>body. parsed = PyDict body \<and> map_of body ''data'' = None \<longrightarrow>
           result (ChatGLM_call e self prompt stop kwargs)
             = Inl (ValueError (''No content in response : '' @ py_str e parsed))
           \<and> failure_kind (ChatGLM_call e self prompt stop kwargs) = Some ResponseParseError
           \<and> self_after (ChatGLM_call e self prompt stop kwargs) = self)"
proof -
  have not_a_mapping: "result (ChatGLM_call e self prompt stop kwargs)
             = Inl (ValueError (''Unexpected response type: '' @ py_str e parsed))
           \<and> failure_kind (ChatGLM_call e self prompt stop kwargs) = Some ResponseParseError
           \<and> self_after (ChatGLM_call e self prompt stop kwargs) = self"
    if "\<forall>body. parsed \<noteq> PyDict body"
  proof -
    have "extract_text e response
        = Inl (ValueError (''Unexpected response type: '' @ py_str e parsed))"
      using that assms(3) by (cases parsed) (simp_all add: extract_text_def)
    from call_extract_fails [OF assms(1,2) this] show ?thesis
      by (simp add: failure_kind_def error_kind_of_def)
  qed
  have no_data: "result (ChatGLM_call e self prompt stop kwargs)
             = Inl (ValueError (''No content in response : '' @ py_str e parsed))
           \<and> failure_kind (ChatGLM_call e self prompt stop kwargs) = Some ResponseParseError
           \<and> self_after (ChatGLM_call e self prompt stop kwargs) = self"
    if "parsed = PyDict body \<and> map_of body ''data'' = None" for body
  proof -
    have "extract_text e response
        = Inl (ValueError (''No content in response : '' @ py_str e parsed))"
      using that assms(3) by (simp add: extract_text_def dict_contains_def)
    from call_extract_fails [OF assms(1,2) this] show ?thesis
      by (simp add: failure_kind_def error_kind_of_def)
  qed
  from not_a_mapping no_data show ?thesis by blast
qed

text \<open>Under \<^verbatim>\<open>data\<close> nothing is guarded. The subscriptions of line 132 raise by themselves,
  and the \<^verbatim>\<open>except\<close> of line 138 lets everything but a \<^verbatim>\<open>JSONDecodeError\<close> through. Which
  exception leaves the call is settled by where the path \<^verbatim>\<open>data.choices[0].content\<close> breaks.\<close>

lemma unguarded_subscripts_raise:
  assumes "received (ChatGLM_call e self prompt stop kwargs) = Some response"
    and "status_code response = 200"
    and "json_result response = Inr (PyDict body)"
    and "map_of body ''data'' = Some data"
  shows "((\<forall>d. data \<noteq> PyDict d) \<longrightarrow>
           result (ChatGLM_call e self prompt stop kwargs) = Inl TypeError)
       \<and> (\<forall>d. data = PyDict d \<and> map_of d ''choices'' = None \<longrightarrow>
           result (ChatGLM_call e self prompt stop kwargs) = Inl (KeyError (PyStr ''choices'')))
       \<and> (\<forall>d. data = PyDict d \<and> map_of d ''choices'' = Some (PyList []) \<longrightarrow>
           result (ChatGLM_call e self prompt stop kwargs) = Inl IndexError)
       \<and> (\<forall>d choice others. data = PyDict d
             \<and> map_of d ''choices'' = Some (PyList (PyDict choice # others))
             \<and> map_of choice ''content'' = None \<longrightarrow>
           result (ChatGLM_call e self prompt stop kwargs) = Inl (KeyError (PyStr ''content'')))"
proof (intro conjI allI impI)
  assume "\<forall>d. data \<noteq> PyDict d"
  then have "extract_text e response = Inl TypeError"
    using assms(3,4)
    by (cases data) (simp_all add: extract_text_def dict_contains_def getitem_str_def)
  from call_extract_fails [OF assms(1,2) this]
  show "result (ChatGLM_call e self prompt stop kwargs) = Inl TypeError" by simp
next
  fix d
  assume "data = PyDict d \<and> map_of d ''choices'' = None"
  then have "extract_text e response = Inl (KeyError (PyStr ''choices''))"
    using assms(3,4) by (simp add: extract_text_def dict_contains_def getitem_str_def)
  from call_extract_fails [OF assms(1,2) this]
  show "result (ChatGLM_call e self prompt stop kwargs) = Inl (KeyError (PyStr ''choices''))"
    by simp
next
  fix d
  assume "data = PyDict d \<and> map_of d ''choices'' = Some (PyList [])"
  then have "extract_text e response = Inl IndexError"
    using assms(3,4)
    by (simp add: extract_text_def dict_contains_def getitem_str_def getitem_int_def
        seq_index_def)
  from call_extract_fails [OF assms(1,2) this]
  show "result (ChatGLM_call e self prompt stop kwargs) = Inl IndexError" by simp
next
  fix d choice others
  assume "data = PyDict d \<and> map_of d ''choices'' = Some (PyList (PyDict choice # others))
             \<and> map_of choice ''content'' = None"
  then have "extract_text e response = Inl (KeyError (PyStr ''content''))"
    using assms(3,4)
    by (simp add: extract_text_def dict_contains_def getitem_str_def getitem_int_def
        seq_index_def)
  from call_extract_fails [OF assms(1,2) this]
  show "result (ChatGLM_call e self prompt stop kwargs) = Inl (KeyError (PyStr ''content''))"
    by simp
qed

text \<open>Whenever the path does not exist, what is raised is one of these lookup errors, none
  of which is a \<open>ResponseParseError\<close>; the call returns no text and the client is as it was.\<close>

lemma extract_text_mismatch:
  assumes "json_result response = Inr (PyDict body)"
    and "map_of body ''data'' = Some data"
    and "content_at (PyDict body) = None"
  shows "\<exists>x. extract_text e response = Inl x \<and> lookup_error x"
  using assms
  by (auto simp: extract_text_def content_at_def dict_contains_def getitem_str_def getitem_int_def
      seq_index_def lookup_error_def
      split: pyval.splits option.splits list.splits)

lemma missing_path_raises_lookup_error:
  assumes "received (ChatGLM_call e self prompt stop kwargs) = Some response"
    and "status_code response = 200"
    and "json_result response = Inr (PyDict body)"
    and "map_of body ''data'' = Some data"
    and "content_at (PyDict body) = None"
  shows "(\<exists>x. result (ChatGLM_call e self prompt stop kwargs) = Inl x \<and> lookup_error x)
       \<and> failure_kind (ChatGLM_call e self prompt stop kwargs) = None
       \<and> self_after (ChatGLM_call e self prompt stop kwargs) = self"
proof -
  from extract_text_mismatch [OF assms(3-5)] obtain x where
    x: "extract_text e response = Inl x" "lookup_error x" by blast
  from call_extract_fails [OF assms(1,2) x(1)] x(2) show ?thesis
    by (simp add: failure_kind_def lookup_error_no_kind)
qed

text \<open>
  C1. For every response with status 200 whose body parses, a top level that is not a
  mapping, a missing \<^verbatim>\<open>data\<close>, or a mismatch under \<^verbatim>\<open>data\<close> (\<^verbatim>\<open>choices\<close> missing, the list
  empty, \<^verbatim>\<open>content\<close> absent) raises a \<open>ResponseParseError\<close>. The code does so for the first
  two and fails to for the third. The comment of line 128 announces the check that the
  content of the response exists, and lines 134 and 136 raise \<^verbatim>\<open>ValueError\<close> for a reply
  without it; but the check stops at the key \<^verbatim>\<open>data\<close>. The body \<^verbatim>\<open>{"data":{}}\<close> passes it,
  \<^verbatim>\<open>{}["choices"]\<close> raises \<^verbatim>\<open>KeyError\<close> on line 132, and the call ends with that
  \<^verbatim>\<open>KeyError\<close> where the claim, and the two branches beside it, have a \<^verbatim>\<open>ValueError\<close>.
\<close>

theorem missing_choices_raises_KeyError:
  "received (ChatGLM_call (env_replying reply_without_choices) keyed_client ''Who are you?'' None [])
     = Some reply_without_choices
   \<and> status_code reply_without_choices = 200
   \<and> json_result reply_without_choices = Inr (PyDict [(''data'', PyDict [])])
   \<and> result (ChatGLM_call (env_replying reply_without_choices) keyed_client ''Who are you?'' None [])
     = Inl (KeyError (PyStr ''choices''))
   \<and> failure_kind
       (ChatGLM_call (env_replying reply_without_choices) keyed_client ''Who are you?'' None [])
     \<noteq> Some ResponseParseError"
  by (simp add: received_def ChatGLM_call_def env_replying_def keyed_client_def
      ChatGLM_default_def sample_generate_token_def Let_def reply_without_choices_def
      json_reply_def after_post_def extract_text_def dict_contains_def getitem_str_def
      failure_kind_def error_kind_of_def)

text \<open>The same path at the other two mismatches the claim names, and at the reply without
  \<^verbatim>\<open>data\<close>, where the guard of line 134 does raise the \<^verbatim>\<open>ValueError\<close>.\<close>

lemma empty_choices_raises_IndexError:
  "result (ChatGLM_call
      (env_replying (json_reply 200 ''{\"data\":{\"choices\":[]}}''
         (PyDict [(''data'', PyDict [(''choices'', PyList [])])])))
      keyed_client ''Who are you?'' None [])
     = Inl IndexError"
  by (simp add: ChatGLM_call_def env_replying_def keyed_client_def ChatGLM_default_def
      sample_generate_token_def Let_def json_reply_def after_post_def extract_text_def
      dict_contains_def getitem_str_def getitem_int_def seq_index_def)

lemma missing_content_raises_KeyError:
  "result (ChatGLM_call
      (env_replying (json_reply 200 ''{\"data\":{\"choices\":[{}]}}''
         (PyDict [(''data'', PyDict [(''choices'', PyList [PyDict []])])])))
      keyed_client ''Who are you?'' None [])
     = Inl (KeyError (PyStr ''content''))"
  by (simp add: ChatGLM_call_def env_replying_def keyed_client_def ChatGLM_default_def
      sample_generate_token_def Let_def json_reply_def after_post_def extract_text_def
      dict_contains_def getitem_str_def getitem_int_def seq_index_def)

lemma missing_data_raises_ValueError:
  "result (ChatGLM_call (env_replying unexpected_reply) keyed_client ''Who are you?'' None [])
     = Inl (ValueError ''No content in response : <value>'')
   \<and> failure_kind
       (ChatGLM_call (env_replying unexpected_reply) keyed_client ''Who are you?'' None [])
     = Some ResponseParseError"
  by (simp add: ChatGLM_call_def env_replying_def keyed_client_def ChatGLM_default_def
      sample_generate_token_def Let_def unexpected_reply_def json_reply_def after_post_def
      extract_text_def dict_contains_def failure_kind_def error_kind_of_def)

lemma not_a_mapping_raises_ValueError:
  "result (ChatGLM_call (env_replying list_reply) keyed_client ''Who are you?'' None [])
     = Inl (ValueError ''Unexpected response type: <value>'')
   \<and> failure_kind (ChatGLM_call (env_replying list_reply) keyed_client ''Who are you?'' None [])
     = Some ResponseParseError"
  by (simp add: ChatGLM_call_def env_replying_def keyed_client_def ChatGLM_default_def
      sample_generate_token_def Let_def list_reply_def json_reply_def after_post_def
      extract_text_def failure_kind_def error_kind_of_def)

text \<open>A \<^verbatim>\<open>content\<close> that is present but is not a string is not looked at either: without
  stop markers the call returns it as it is.\<close>

lemma content_not_a_string_is_returned:
  "result (ChatGLM_call
      (env_replying (json_reply 200 ''{\"data\":{\"choices\":[{\"content\":5}]}}''
         (PyDict [(''data'', PyDict [(''choices'', PyList [PyDict [(''content'', PyInt 5)]])])])))
      keyed_client ''Who are you?'' None [])
     = Inr (PyInt 5)"
  by (simp add: ChatGLM_call_def env_replying_def keyed_client_def ChatGLM_default_def
      sample_generate_token_def Let_def json_reply_def after_post_def extract_text_def
      dict_contains_def getitem_str_def getitem_int_def seq_index_def finish_def)

subsection \<open>Replies with a status other than 200\<close>

lemma after_post_not_200:
  assumes "status_code response \<noteq> 200"
  shows "after_post e self stop (Inr response)
    = (Inl (ValueError (''Failed with response: '' @ str_response response)), self)"
  using assms by (simp add: after_post_def)

lemma str_int_500: "str_int 500 = ''500''"
  by code_simp

text \<open>
  C2, as stated: the error raised for a status other than 200 carries the status and the
  body. The message is built from \<^verbatim>\<open>str(response)\<close>, which prints the status code alone:
  two replies with status 500 and different bodies raise the same \<^verbatim>\<open>ValueError\<close>, so the
  body cannot be read off the error.
\<close>

theorem upstream_error_drops_body_counterexample:
  "status_code boom_reply \<noteq> 200 \<and> status_code bang_reply \<noteq> 200
   \<and> text_body boom_reply \<noteq> text_body bang_reply
   \<and> result (ChatGLM_call (env_replying boom_reply) keyed_client ''Who are you?'' None [])
     = Inl (ValueError ''Failed with response: <Response [500]>'')
   \<and> result (ChatGLM_call (env_replying bang_reply) keyed_client ''Who are you?'' None [])
     = Inl (ValueError ''Failed with response: <Response [500]>'')"
  by (simp add: ChatGLM_call_def env_replying_def keyed_client_def
      ChatGLM_default_def sample_generate_token_def Let_def boom_reply_def bang_reply_def
      json_reply_def after_post_def str_response_def str_int_500)

text \<open>
  C2, amended. For every response with a status other than 200 the call raises the
  \<^verbatim>\<open>ValueError\<close> of line 124, an \<open>UpstreamError\<close>, whose message carries the status code
  (two such calls that raise the same error received the same status) and not the body;
  the client, and with it the history, is unchanged.
\<close>

theorem non_200_raises_upstream_error:
  assumes "received (ChatGLM_call e self prompt stop kwargs) = Some response"
    and "status_code response \<noteq> 200"
  shows "result (ChatGLM_call e self prompt stop kwargs)
      = Inl (ValueError
          (''Failed with response: <Response ['' @ str_int (status_code response) @ '']>''))
    \<and> failure_kind (ChatGLM_call e self prompt stop kwargs) = Some UpstreamError
    \<and> self_after (ChatGLM_call e self prompt stop kwargs) = self
    \<and> history (self_after (ChatGLM_call e self prompt stop kwargs)) = history self
    \<and> (received (ChatGLM_call e' self' prompt' stop' kwargs') = Some response'
         \<and> status_code response' \<noteq> 200
         \<and> result (ChatGLM_call e' self' prompt' stop' kwargs')
           = result (ChatGLM_call e self prompt stop kwargs)
       \<longrightarrow> status_code response' = status_code response)"
proof -
  have r: "result (ChatGLM_call e self prompt stop kwargs)
      = Inl (ValueError (''Failed with response: '' @ str_response response))"
    and s: "self_after (ChatGLM_call e self prompt stop kwargs) = self"
    using received_call [OF assms(1)] after_post_not_200 [OF assms(2)] by simp_all
  have k: "failure_kind (ChatGLM_call e self prompt stop kwargs) = Some UpstreamError"
    using r by (simp add: failure_kind_def error_kind_of_def)
  have c: "status_code response' = status_code response"
    if "received (ChatGLM_call e' self' prompt' stop' kwargs') = Some response'"
      and "status_code response' \<noteq> 200"
      and "result (ChatGLM_call e' self' prompt' stop' kwargs')
           = result (ChatGLM_call e self prompt stop kwargs)"
  proof -
    have "result (ChatGLM_call e' self' prompt' stop' kwargs')
      = Inl (ValueError (''Failed with response: '' @ str_response response'))"
      using received_call [OF that(1)] after_post_not_200 [OF that(2)] by simp
    with r that(3) have "str_response response' = str_response response" by simp
    then show ?thesis by (rule str_response_status)
  qed
  from r s k c show ?thesis by (simp add: str_response_def)
qed

theorem non_200_raises_upstream_error_witness:
  "received (ChatGLM_call (env_replying boom_reply) keyed_client ''Who are you?'' None [])
     = Some boom_reply
   \<and> status_code boom_reply \<noteq> 200
   \<and> result (ChatGLM_call (env_replying boom_reply) keyed_client ''Who are you?'' None [])
     = Inl (ValueError ''Failed with response: <Response [500]>'')
   \<and> history (self_after
       (ChatGLM_call (env_replying boom_reply) keyed_client ''Who are you?'' None []))
     = history keyed_client"
proof -
  have s: "status_code boom_reply \<noteq> 200" "status_code boom_reply = 500"
    by (simp_all add: boom_reply_def json_reply_def)
  from non_200_raises_upstream_error [OF received_sample s(1),
      of None "env_replying boom_reply" keyed_client "''Who are you?''" None "[]" boom_reply]
    received_sample [of boom_reply None] s
  show ?thesis by (simp add: str_int_500)
qed

subsection \<open>The payload\<close>

text \<open>Setting an item and updating from another dict, seen through the lookup.\<close>

lemma map_of_setitem: "map_of (setitem d k v) = (map_of d)(k \<mapsto> v)"
  by (induction d) (auto simp: fun_eq_iff)

lemma keys_setitem:
  "map fst (setitem d k v) = (if k \<in> set (map fst d) then map fst d else map fst d @ [k])"
  by (induction d) (force simp: image_iff)+

lemma distinct_setitem: "distinct (map fst d) \<Longrightarrow> distinct (map fst (setitem d k v))"
  by (simp add: keys_setitem)

lemma dict_update_Nil: "dict_update d [] = d"
  by (simp add: dict_update_def)

lemma dict_update_Cons: "dict_update d ((k, v) # other) = dict_update (setitem d k v) other"
  by (simp add: dict_update_def)

lemma distinct_dict_update:
  "distinct (map fst d) \<Longrightarrow> distinct (map fst (dict_update d other))"
proof (induction other arbitrary: d)
  case Nil
  then show ?case by (simp add: dict_update_Nil)
next
  case (Cons item other)
  obtain k v where item: "item = (k, v)" by (cases item)
  from Cons.prems have "distinct (map fst (setitem d k v))" by (rule distinct_setitem)
  then show ?case unfolding item dict_update_Cons by (rule Cons.IH)
qed

lemma map_of_dict_update_other:
  "k \<notin> set (map fst other) \<Longrightarrow> map_of (dict_update d other) k = map_of d k"
proof (induction other arbitrary: d)
  case Nil
  then show ?case by (simp add: dict_update_Nil)
next
  case (Cons item other)
  obtain k' v where item: "item = (k', v)" by (cases item)
  from Cons.prems item have ne: "k \<noteq> k'" and out: "k \<notin> set (map fst other)" by auto
  have "map_of (dict_update d (item # other)) k = map_of (setitem d k' v) k"
    unfolding item dict_update_Cons using out by (rule Cons.IH)
  with ne show ?case by (simp add: map_of_setitem)
qed

lemma map_of_dict_update:
  "distinct (map fst other) \<Longrightarrow>
     map_of (dict_update d other) k =
       (case map_of other k of Some v \<Rightarrow> Some v | None \<Rightarrow> map_of d k)"
proof (induction other arbitrary: d)
  case Nil
  then show ?case by (simp add: dict_update_Nil)
next
  case (Cons item other)
  obtain k' v where item: "item = (k', v)" by (cases item)
  from Cons.prems item have fresh: "k' \<notin> set (map fst other)" and d: "distinct (map fst other)"
    by auto
  show ?case
  proof (cases "k = k'")
    case True
    with fresh have "map_of (dict_update (setitem d k' v) other) k = map_of (setitem d k' v) k"
      by (simp add: map_of_dict_update_other)
    with True show ?thesis unfolding item dict_update_Cons by (simp add: map_of_setitem)
  next
    case False
    have "map_of (dict_update (setitem d k' v) other) k =
       (case map_of other k of Some v \<Rightarrow> Some v | None \<Rightarrow> map_of (setitem d k' v) k)"
      using d by (rule Cons.IH)
    with False show ?thesis unfolding item dict_update_Cons
      by (simp add: map_of_setitem split: option.split)
  qed
qed

lemma sent_call:
  assumes "sent (ChatGLM_call e self prompt stop kwargs) = Some req"
  shows "json req = build_payload self prompt kwargs \<and> url req = endpoint_url self"
  using assms
  by (auto simp: ChatGLM_call_def sent_def Let_def split: sum.splits if_splits prod.splits)

lemma sent_sample:
  "sent (ChatGLM_call (env_replying r) self prompt stop kwargs) =
     (if api_key self = [] then None
      else Some \<lparr>url = endpoint_url self,
                 headers = build_headers (''signed:'' @ api_key self),
                 json = build_payload self prompt kwargs\<rparr>)"
  by (simp add: sent_def ChatGLM_call_def env_replying_def sample_generate_token_def Let_def
      split: prod.splits)

text \<open>
  C7. For every mapping of model parameters in the configuration and every mapping of
  per-call parameters, the payload is the six built-in fields (\<^verbatim>\<open>prompt\<close>, \<^verbatim>\<open>temperature\<close>,
  \<^verbatim>\<open>history\<close>, \<^verbatim>\<open>max_length\<close>, \<^verbatim>\<open>top_p\<close>, \<^verbatim>\<open>return_type\<close>) overridden by the first and then
  by the second: under every key the per-call value wins over the configured one, which
  wins over the built-in one. The payload is a dict again, and it is the body of the
  request sent. A mapping has each key once, which is the hypothesis on the two lists.
\<close>

theorem payload_precedence:
  assumes "distinct (map fst (or_empty (model_kwargs self)))"
    and "distinct (map fst kwargs)"
  shows "map fst (default_fields self prompt)
           = [''prompt'', ''temperature'', ''history'', ''max_length'', ''top_p'', ''return_type'']
    \<and> map_of (build_payload self prompt kwargs) key =
         (case map_of kwargs key of
            Some v \<Rightarrow> Some v
          | None \<Rightarrow>
             (case map_of (or_empty (model_kwargs self)) key of
                Some v \<Rightarrow> Some v
              | None \<Rightarrow> map_of (default_fields self prompt) key))
    \<and> distinct (map fst (build_payload self prompt kwargs))
    \<and> (sent (ChatGLM_call e self prompt stop kwargs) = Some req \<longrightarrow>
         json req = build_payload self prompt kwargs)"
proof -
  have keys: "map fst (default_fields self prompt)
           = [''prompt'', ''temperature'', ''history'', ''max_length'', ''top_p'', ''return_type'']"
    by (simp add: default_fields_def)
  have look: "map_of (build_payload self prompt kwargs) key =
         (case map_of kwargs key of
            Some v \<Rightarrow> Some v
          | None \<Rightarrow>
             (case map_of (or_empty (model_kwargs self)) key of
                Some v \<Rightarrow> Some v
              | None \<Rightarrow> map_of (default_fields self prompt) key))"
    by (simp add: build_payload_def Let_def map_of_dict_update [OF assms(2)]
        map_of_dict_update [OF assms(1)] split: option.split)
  have "distinct (map fst (default_fields self prompt))"
    unfolding keys by simp
  then have dist: "distinct (map fst (build_payload self prompt kwargs))"
    by (simp add: build_payload_def Let_def distinct_dict_update)
  from keys look dist sent_call [of e self prompt stop kwargs req] show ?thesis by blast
qed

theorem payload_precedence_witness:
  "map_of (build_payload tuned_client ''Who are you?''
      [(''temperature'', PyFloat 0.9), (''max_length'', PyInt 50)]) ''temperature''
     = Some (PyFloat 0.9)
   \<and> map_of (build_payload tuned_client ''Who are you?''
      [(''temperature'', PyFloat 0.9), (''max_length'', PyInt 50)]) ''top_p''
     = Some (PyFloat 0.9)
   \<and> map_of (build_payload tuned_client ''Who are you?''
      [(''temperature'', PyFloat 0.9), (''max_length'', PyInt 50)]) ''max_length''
     = Some (PyInt 50)
   \<and> map_of (build_payload tuned_client ''Who are you?''
      [(''temperature'', PyFloat 0.9), (''max_length'', PyInt 50)]) ''prompt''
     = Some (PyStr ''Who are you?'')
   \<and> sent_field (ChatGLM_call (env_replying model_reply) tuned_client ''Who are you?'' None
      [(''temperature'', PyFloat 0.9), (''max_length'', PyInt 50)]) ''temperature''
     = Some (PyFloat 0.9)"
proof -
  let ?kw = "[(''temperature'', PyFloat 0.9), (''max_length'', PyInt 50)]"
  let ?req = "\<lparr>url = endpoint_url tuned_client,
                 headers = build_headers (''signed:'' @ api_key tuned_client),
                 json = build_payload tuned_client ''Who are you?'' ?kw\<rparr>"
  have m: "or_empty (model_kwargs tuned_client)
      = [(''temperature'', PyFloat 0.5), (''top_p'', PyFloat 0.9)]"
    by (simp add: tuned_client_def keyed_client_def ChatGLM_default_def or_empty_def)
  have a: "distinct (map fst (or_empty (model_kwargs tuned_client)))"
    unfolding m by simp
  have b: "distinct (map fst ?kw)" by simp
  have s: "sent (ChatGLM_call (env_replying model_reply) tuned_client ''Who are you?'' None ?kw)
      = Some ?req"
    by (simp add: sent_sample tuned_client_def keyed_client_def ChatGLM_default_def)
  have d: "default_fields tuned_client ''Who are you?'' =
     [(''prompt'', PyStr ''Who are you?''), (''temperature'', PyFloat 0.1),
      (''history'', PyList []), (''max_length'', PyInt 20000), (''top_p'', PyFloat 0.7),
      (''return_type'', PyStr ''text'')]"
    by (simp add: default_fields_def tuned_client_def keyed_client_def ChatGLM_default_def)
  note p = payload_precedence [OF a b, of "''Who are you?''" _ "env_replying model_reply" None ?req]
  from p [of "''temperature''"] p [of "''top_p''"] p [of "''max_length''"] p [of "''prompt''"] s
  show ?thesis by (simp add: m d sent_field_def)
qed

subsection \<open>The history field of the payload\<close>

text \<open>
  C9, as stated: the \<^verbatim>\<open>history\<close> field of the payload is the client's history before the
  call. The field is one of the six that the two updates of lines 110 and 111 may
  replace: a call that is given \<^verbatim>\<open>history=[]\<close> sends the empty list, whatever the client's
  history is.
\<close>

theorem payload_history_overridden_counterexample:
  "sent_field (ChatGLM_call (env_replying model_reply) history_client ''Who are you?'' None
      [(''history'', PyList [])]) ''history'' = Some (PyList [])
   \<and> history history_client = [earlier_entry]"
  by (simp add: sent_field_def sent_sample history_client_def keyed_client_def ChatGLM_default_def
      build_payload_def default_fields_def or_empty_def dict_update_def)

text \<open>
  C9, amended. When neither the configured model parameters nor the per-call parameters
  have the key \<^verbatim>\<open>history\<close>, the \<^verbatim>\<open>history\<close> field of the payload sent is the client's
  history as it was before the call. The request is fixed before the reply exists: it
  stays the same whatever the transport returns, so the entry appended after a successful
  call is never part of that call's own payload.
\<close>

theorem payload_history_is_history_before:
  assumes "sent (ChatGLM_call e self prompt stop kwargs) = Some req"
    and "''history'' \<notin> set (map fst (or_empty (model_kwargs self)))"
    and "''history'' \<notin> set (map fst kwargs)"
  shows "sent_field (ChatGLM_call e self prompt stop kwargs) ''history''
           = Some (PyList (history self))
       \<and> sent (ChatGLM_call (e\<lparr>requests_post := transport\<rparr>) self prompt stop kwargs)
           = Some req"
proof -
  have "map_of (build_payload self prompt kwargs) ''history''
      = map_of (default_fields self prompt) ''history''"
    using assms(2,3) by (simp add: build_payload_def Let_def map_of_dict_update_other)
  then have "map_of (build_payload self prompt kwargs) ''history'' = Some (PyList (history self))"
    by (simp add: default_fields_def)
  with assms(1) sent_call [OF assms(1)]
  have f: "sent_field (ChatGLM_call e self prompt stop kwargs) ''history''
           = Some (PyList (history self))"
    by (simp add: sent_field_def)
  have "sent (ChatGLM_call (e\<lparr>requests_post := transport\<rparr>) self prompt stop kwargs)
      = sent (ChatGLM_call e self prompt stop kwargs)"
    by (simp add: ChatGLM_call_def sent_def Let_def split: sum.splits prod.splits)
  with assms(1) f show ?thesis by simp
qed

theorem payload_history_is_history_before_witness:
  "sent_field (ChatGLM_call (env_replying model_reply) history_client ''Who are you?'' None [])
       ''history''
     = Some (PyList [earlier_entry])
   \<and> history (self_after
       (ChatGLM_call (env_replying model_reply) history_client ''Who are you?'' None []))
     = [earlier_entry,
        PyList [PyNone, PyList [PyDict [(''content'', PyStr ''I am a model.'')]]]]"
proof -
  let ?req = "\<lparr>url = endpoint_url history_client,
                 headers = build_headers (''signed:'' @ api_key history_client),
                 json = build_payload history_client ''Who are you?'' []\<rparr>"
  have s: "sent (ChatGLM_call (env_replying model_reply) history_client ''Who are you?'' None [])
      = Some ?req"
    by (simp add: sent_sample history_client_def keyed_client_def ChatGLM_default_def)
  have a: "''history'' \<notin> set (map fst (or_empty (model_kwargs history_client)))"
    by (simp add: history_client_def keyed_client_def ChatGLM_default_def or_empty_def)
  have b: "''history'' \<notin> set (map fst ([] :: pydict))" by simp
  have h: "history history_client = [earlier_entry]"
    by (simp add: history_client_def)
  have after: "history (self_after
       (ChatGLM_call (env_replying model_reply) history_client ''Who are you?'' None []))
     = [earlier_entry,
        PyList [PyNone, PyList [PyDict [(''content'', PyStr ''I am a model.'')]]]]"
    by (simp add: ChatGLM_call_def env_replying_def sample_generate_token_def Let_def
        history_client_def keyed_client_def ChatGLM_default_def model_reply_def json_reply_def
        after_post_def extract_text_def dict_contains_def getitem_str_def getitem_int_def
        seq_index_def finish_def)
  from payload_history_is_history_before [OF s a b] h after show ?thesis by simp
qed

subsection \<open>The history\<close>

text \<open>What a call does to the client: nothing when it raises, and when it returns, the
  one append of line 147 if history is enabled.\<close>

lemma extract_text_Inr:
  assumes "extract_text e response = Inr (t, parsed)"
  shows "\<exists>body data c. json_result response = Inr (PyDict body) \<and> parsed = PyDict body
           \<and> map_of body ''data'' = Some (PyDict data) \<and> map_of data ''choices'' = Some c"
  using assms
  by (auto simp: extract_text_def dict_contains_def getitem_str_def
      split: sum.splits exn.splits pyval.splits option.splits if_splits)

lemma finish_Inl: "finish self stop t parsed = (Inl x, self') \<Longrightarrow> self' = self"
  by (auto simp: finish_def split: sum.splits if_splits)

lemma finish_Inr:
  assumes "finish self stop t (PyDict body) = (Inr v, self')"
    and "map_of body ''data'' = Some (PyDict data)"
    and "map_of data ''choices'' = Some c"
  shows "self' = (if with_history self then self\<lparr>history := history self @ [history_entry c]\<rparr>
                  else self)"
  using assms
  by (auto simp: finish_def getitem_str_def history_entry_def split: sum.splits if_splits)

lemma after_post_Inl: "after_post e self stop posted = (Inl x, self') \<Longrightarrow> self' = self"
  by (auto simp: after_post_def split: sum.splits exn.splits if_splits prod.splits
      dest: finish_Inl)

lemma after_post_Inr:
  assumes "after_post e self stop posted = (Inr v, self')"
  shows "\<exists>response c. posted = Inr response \<and> reply_choices response = Some c
      \<and> self' = (if with_history self then self\<lparr>history := history self @ [history_entry c]\<rparr>
                  else self)"
proof -
  from assms obtain response where p: "posted = Inr response"
    by (cases posted) (auto simp: after_post_def split: exn.splits)
  from assms p have s: "status_code response = 200"
    by (auto simp: after_post_def split: if_splits)
  from assms p s obtain t parsed where x: "extract_text e response = Inr (t, parsed)"
    and f: "finish self stop t parsed = (Inr v, self')"
    by (auto simp: after_post_def split: sum.splits)
  from extract_text_Inr [OF x] obtain body data c where
    b: "json_result response = Inr (PyDict body)" "parsed = PyDict body"
       "map_of body ''data'' = Some (PyDict data)" "map_of data ''choices'' = Some c"
    by blast
  from b have "reply_choices response = Some c" by (simp add: reply_choices_def)
  moreover from f b finish_Inr
  have "self' = (if with_history self then self\<lparr>history := history self @ [history_entry c]\<rparr>
                  else self)" by blast
  ultimately show ?thesis using p by blast
qed

lemma call_failed:
  assumes "\<not> succeeded (ChatGLM_call e self prompt stop kwargs)"
  shows "self_after (ChatGLM_call e self prompt stop kwargs) = self"
proof (cases "exchanges (ChatGLM_call e self prompt stop kwargs)")
  case Nil
  then show ?thesis
    by (auto simp: ChatGLM_call_def Let_def split: sum.splits if_splits prod.splits)
next
  case (Cons a list)
  then obtain generate_token token where
    g: "import_jwt_token e = Inr generate_token" "api_key self \<noteq> []"
       "generate_token (api_key self) = Inr token"
    by (auto simp: ChatGLM_call_def Let_def split: sum.splits if_splits prod.splits)
  let ?req = "\<lparr>url = endpoint_url self, headers = build_headers token,
                json = build_payload self prompt kwargs\<rparr>"
  obtain res self' where a: "after_post e self stop (requests_post e ?req) = (res, self')"
    by (cases "after_post e self stop (requests_post e ?req)")
  from g a have r: "result (ChatGLM_call e self prompt stop kwargs) = res"
    and s: "self_after (ChatGLM_call e self prompt stop kwargs) = self'"
    by (simp_all add: ChatGLM_call_def Let_def)
  from assms r obtain x where "res = Inl x" by (cases res) (simp_all add: succeeded_def)
  with a after_post_Inl have "self' = self" by blast
  with s show ?thesis by simp
qed

lemma call_succeeded:
  assumes "succeeded (ChatGLM_call e self prompt stop kwargs)"
  shows "\<exists>c. raw_choices (ChatGLM_call e self prompt stop kwargs) = Some c
     \<and> self_after (ChatGLM_call e self prompt stop kwargs)
        = (if with_history self then self\<lparr>history := history self @ [history_entry c]\<rparr>
           else self)"
proof -
  from assms obtain generate_token token where
    g: "import_jwt_token e = Inr generate_token" "api_key self \<noteq> []"
       "generate_token (api_key self) = Inr token"
    by (auto simp: ChatGLM_call_def succeeded_def Let_def split: sum.splits if_splits prod.splits)
  let ?req = "\<lparr>url = endpoint_url self, headers = build_headers token,
                json = build_payload self prompt kwargs\<rparr>"
  obtain res self' where a: "after_post e self stop (requests_post e ?req) = (res, self')"
    by (cases "after_post e self stop (requests_post e ?req)")
  from g a have r: "result (ChatGLM_call e self prompt stop kwargs) = res"
    and s: "self_after (ChatGLM_call e self prompt stop kwargs) = self'"
    and x: "exchanges (ChatGLM_call e self prompt stop kwargs) = [(?req, requests_post e ?req)]"
    by (simp_all add: ChatGLM_call_def Let_def)
  from assms r obtain v where "res = Inr v" by (cases res) (simp_all add: succeeded_def)
  with a after_post_Inr obtain response c where
    p: "requests_post e ?req = Inr response" "reply_choices response = Some c"
       "self' = (if with_history self then self\<lparr>history := history self @ [history_entry c]\<rparr>
                  else self)"
    by blast
  from x p(1,2) have "raw_choices (ChatGLM_call e self prompt stop kwargs) = Some c"
    by (simp add: raw_choices_def received_def)
  with s p(3) show ?thesis by blast
qed

lemma returned_choices_Cons:
  "returned_choices (out # outs) =
     (if succeeded out then (case raw_choices out of None \<Rightarrow> [] | Some c \<Rightarrow> [c]) else [])
     @ returned_choices outs"
  by (simp add: returned_choices_def List.map_filter_simps split: option.splits)

lemma run_calls_history:
  assumes "run_calls self calls = (outs, self')"
  shows "with_history self' = with_history self
    \<and> length outs = length calls
    \<and> map raw_choices (filter succeeded outs) = map Some (returned_choices outs)
    \<and> history self' = history self @
         (if with_history self then map history_entry (returned_choices outs) else [])"
  using assms
proof (induction calls arbitrary: self outs self')
  case Nil
  then show ?case by (simp add: returned_choices_def List.map_filter_simps)
next
  case (Cons c cs)
  let ?out = "ChatGLM_call (call_env c) self (call_prompt c) (call_stop c) (call_kwargs c)"
  obtain outs' where r: "run_calls (self_after ?out) cs = (outs', self')" and o: "outs = ?out # outs'"
    using Cons.prems by (auto simp: Let_def split: prod.splits)
  note ih = Cons.IH [OF r]
  show ?case
  proof (cases "succeeded ?out")
    case True
    from call_succeeded [OF True] obtain ch where
      ch: "raw_choices ?out = Some ch"
          "self_after ?out = (if with_history self
             then self\<lparr>history := history self @ [history_entry ch]\<rparr> else self)"
      by blast
    from ch(2) have w: "with_history (self_after ?out) = with_history self"
      and h: "history (self_after ?out)
          = history self @ (if with_history self then [history_entry ch] else [])"
      by (simp_all split: if_splits)
    from ih w h True ch(1) show ?thesis
      unfolding o by (simp add: returned_choices_Cons)
  next
    case False
    from call_failed [OF False] have "self_after ?out = self" .
    with ih False show ?thesis
      unfolding o by (simp add: returned_choices_Cons)
  qed
qed


text \<open>
  C5. The history changes only when \<^verbatim>\<open>with_history\<close> is true, and then only by the append
  of \<^verbatim>\<open>[None, choices]\<close> after a call that returned. For every run of calls on a client:
  with the flag off the history afterwards is the history before; with the flag on it is
  the history before followed by one entry for each call that returned, in order, whose
  second element is the \<^verbatim>\<open>choices\<close> value of that call's reply as the endpoint sent it. So
  when all \<open>N\<close> calls of a run return and the history was empty, it has length \<open>N\<close>
  afterwards, and nothing already in it is removed or changed. In the witness the first
  call returns the truncated \<^verbatim>\<open>I \<close> and records the untruncated choices.
\<close>

theorem history_grows_by_raw_choices:
  assumes "run_calls self calls = (outs, self')"
  shows "(\<not> with_history self \<longrightarrow> history self' = history self)
    \<and> (with_history self \<longrightarrow>
         history self' = history self @ map history_entry (returned_choices outs))
    \<and> map raw_choices (filter succeeded outs) = map Some (returned_choices outs)
    \<and> (with_history self \<and> history self = [] \<and> (\<forall>out \<in> set outs. succeeded out) \<longrightarrow>
         length (history self') = length calls
         \<and> map raw_choices outs = map Some (returned_choices outs))"
proof -
  note h = run_calls_history [OF assms]
  have "length (history self') = length calls
         \<and> map raw_choices outs = map Some (returned_choices outs)"
    if w: "with_history self" and e: "history self = []" and a: "\<forall>out \<in> set outs. succeeded out"
  proof -
    from a have f: "filter succeeded outs = outs" by simp
    with h have m: "map raw_choices outs = map Some (returned_choices outs)" by simp
    then have "length (returned_choices outs) = length outs"
      by (metis length_map)
    with h w e m show ?thesis by simp
  qed
  with h show ?thesis by simp
qed

lemma run_two_calls:
  "map result (fst (run_calls recording_client two_calls))
     = [Inr (PyStr ''I ''), Inr (PyStr ''Hello.'')]
   \<and> map raw_choices (fst (run_calls recording_client two_calls))
     = [Some (PyList [PyDict [(''content'', PyStr ''I am a model.'')]]),
        Some (PyList [PyDict [(''content'', PyStr ''Hello.'')]])]"
  by (simp add: two_calls_def invoke_def recording_client_def keyed_client_def
      ChatGLM_default_def ChatGLM_call_def env_replying_def sample_generate_token_def Let_def
      model_reply_def hello_reply_def json_reply_def after_post_def extract_text_def
      dict_contains_def getitem_str_def getitem_int_def seq_index_def finish_def stop_text_def
      enforce_stop_tokens_def List.map_filter_simps raw_choices_def received_def
      reply_choices_def)

theorem history_grows_by_raw_choices_witness:
  "map result (fst (run_calls recording_client two_calls))
     = [Inr (PyStr ''I ''), Inr (PyStr ''Hello.'')]
   \<and> history recording_client = []
   \<and> history (snd (run_calls recording_client two_calls))
     = [PyList [PyNone, PyList [PyDict [(''content'', PyStr ''I am a model.'')]]],
        PyList [PyNone, PyList [PyDict [(''content'', PyStr ''Hello.'')]]]]
   \<and> length (history (snd (run_calls recording_client two_calls))) = length two_calls"
proof -
  have r: "run_calls recording_client two_calls
      = (fst (run_calls recording_client two_calls), snd (run_calls recording_client two_calls))"
    by simp
  have w: "with_history recording_client" and e: "history recording_client = []"
    by (simp_all add: recording_client_def keyed_client_def ChatGLM_default_def)
  have s: "\<forall>out \<in> set (fst (run_calls recording_client two_calls)). succeeded out"
  proof
    fix out
    assume "out \<in> set (fst (run_calls recording_client two_calls))"
    then have "result out \<in> set (map result (fst (run_calls recording_client two_calls)))"
      by simp
    with run_two_calls have "result out \<in> {Inr (PyStr ''I ''), Inr (PyStr ''Hello.'')}"
      by simp
    then show "succeeded out" by (auto simp: succeeded_def)
  qed
  note t = history_grows_by_raw_choices [OF r]
  from t w e have h: "history (snd (run_calls recording_client two_calls))
         = map history_entry (returned_choices (fst (run_calls recording_client two_calls)))"
    by simp
  from t have m: "map raw_choices (filter succeeded (fst (run_calls recording_client two_calls)))
         = map Some (returned_choices (fst (run_calls recording_client two_calls)))"
    by blast
  from s have "filter succeeded (fst (run_calls recording_client two_calls))
         = fst (run_calls recording_client two_calls)"
    by simp
  with m have m: "map raw_choices (fst (run_calls recording_client two_calls))
         = map Some (returned_choices (fst (run_calls recording_client two_calls)))"
    by simp
  from t w e s have l: "length (history (snd (run_calls recording_client two_calls)))
         = length two_calls"
    by blast
  from m run_two_calls
  have "returned_choices (fst (run_calls recording_client two_calls))
     = [PyList [PyDict [(''content'', PyStr ''I am a model.'')]],
        PyList [PyDict [(''content'', PyStr ''Hello.'')]]]"
    by (auto simp: map_eq_Cons_conv)
  with h l e run_two_calls show ?thesis by (simp add: history_entry_def)
qed

subsection \<open>The stop markers\<close>

text \<open>The index the scan finds for a marker is the first at which the marker occurs, and
  the scan finds none exactly when the marker occurs nowhere.\<close>

lemma occurs_at_0: "occurs_at m t 0 = prefix m t"
proof
  assume "occurs_at m t 0"
  then have "m = take (length m) t" by (simp add: occurs_at_def)
  then show "prefix m t" by (metis take_is_prefix)
next
  assume "prefix m t"
  then obtain zs where "t = m @ zs" by (auto simp: prefix_def)
  then show "occurs_at m t 0" by (simp add: occurs_at_def)
qed

lemma occurs_at_Suc: "occurs_at m (c # cs) (Suc i) = occurs_at m cs i"
  by (simp add: occurs_at_def)

lemma occurs_at_Nil: "occurs_at m [] i = (m = [] \<and> i = 0)"
  by (auto simp: occurs_at_def)

lemma find_marker_Some:
  "find_marker m t = Some i \<Longrightarrow> occurs_at m t i \<and> (\<forall>j<i. \<not> occurs_at m t j)"
proof (induction t arbitrary: i)
  case Nil
  then show ?case by (simp add: occurs_at_Nil split: if_splits)
next
  case (Cons c cs)
  show ?case
  proof (cases "prefix m (c # cs)")
    case True
    with Cons.prems have "i = 0" by simp
    with True show ?thesis by (simp add: occurs_at_0)
  next
    case False
    with Cons.prems obtain i' where f: "find_marker m cs = Some i'" and i: "i = Suc i'"
      by auto
    from Cons.IH [OF f] have here: "occurs_at m cs i'"
      and before: "\<forall>j<i'. \<not> occurs_at m cs j" by simp_all
    have "\<not> occurs_at m (c # cs) j" if "j < i" for j
    proof (cases j)
      case 0
      with False show ?thesis by (simp add: occurs_at_0)
    next
      case (Suc j')
      with that i before show ?thesis by (simp add: occurs_at_Suc)
    qed
    with here i show ?thesis by (simp add: occurs_at_Suc)
  qed
qed

lemma find_marker_None: "find_marker m t = None \<Longrightarrow> \<not> occurs_at m t i"
proof (induction t arbitrary: i)
  case Nil
  then show ?case by (simp add: occurs_at_Nil split: if_splits)
next
  case (Cons c cs)
  then have np: "\<not> prefix m (c # cs)" and f: "find_marker m cs = None"
    by (auto split: if_splits)
  show ?case
  proof (cases i)
    case 0
    with np show ?thesis by (simp add: occurs_at_0)
  next
    case (Suc i')
    with Cons.IH [OF f] show ?thesis by (simp add: occurs_at_Suc)
  qed
qed

lemma find_marker_first:
  assumes "occurs_at m t i"
  shows "\<exists>k. find_marker m t = Some k \<and> k \<le> i"
proof (cases "find_marker m t")
  case None
  with assms find_marker_None show ?thesis by blast
next
  case (Some k)
  have "k \<le> i"
  proof (rule ccontr)
    assume "\<not> k \<le> i"
    then have "i < k" by simp
    with find_marker_Some [OF Some] assms show False by blast
  qed
  with Some show ?thesis by simp
qed

lemma set_firsts:
  "set (List.map_filter (\<lambda>m. find_marker m t) stop)
     = {k. \<exists>m \<in> set stop. find_marker m t = Some k}"
  by (induction stop) (auto simp: List.map_filter_simps split: option.splits)

lemma marker_at_iff: "marker_at stop t i = (\<exists>m \<in> set stop. occurs_at m t i)"
  by (simp add: marker_at_def list_ex_iff)

lemma enforce_stop_tokens_none:
  assumes "\<forall>i. \<not> marker_at stop t i"
  shows "enforce_stop_tokens t stop = t"
proof -
  have "set (List.map_filter (\<lambda>m. find_marker m t) stop) = {}"
  proof -
    have False if "m \<in> set stop" "find_marker m t = Some k" for m k
      using assms that find_marker_Some [OF that(2)] by (auto simp: marker_at_iff)
    then show ?thesis unfolding set_firsts by blast
  qed
  then have "List.map_filter (\<lambda>m. find_marker m t) stop = []" by simp
  then show ?thesis by (simp add: enforce_stop_tokens_def)
qed

lemma enforce_stop_tokens_least:
  assumes "marker_at stop t i"
  shows "enforce_stop_tokens t stop = take (LEAST k. marker_at stop t k) t"
proof -
  let ?firsts = "List.map_filter (\<lambda>m. find_marker m t) stop"
  from assms obtain m where m: "m \<in> set stop" "occurs_at m t i"
    by (auto simp: marker_at_iff)
  from find_marker_first [OF m(2)] m(1) have "set ?firsts \<noteq> {}"
    unfolding set_firsts by blast
  then obtain k ks where ks: "?firsts = k # ks" by (cases ?firsts) auto
  have cut: "enforce_stop_tokens t stop = take (Min (set ?firsts)) t"
    using Min.set_eq_fold [of k ks] by (simp add: enforce_stop_tokens_def ks)
  have fin: "finite (set ?firsts)" and ne: "set ?firsts \<noteq> {}" using ks by simp_all
  have "(LEAST k. marker_at stop t k) = Min (set ?firsts)"
  proof (rule Least_equality)
    from Min_in [OF fin ne] obtain m' where
      "m' \<in> set stop" "find_marker m' t = Some (Min (set ?firsts))"
      unfolding set_firsts by blast
    with find_marker_Some show "marker_at stop t (Min (set ?firsts))"
      by (auto simp: marker_at_iff)
  next
    fix y
    assume "marker_at stop t y"
    then obtain m' where m': "m' \<in> set stop" "occurs_at m' t y" by (auto simp: marker_at_iff)
    from find_marker_first [OF m'(2)] obtain k' where
      k': "find_marker m' t = Some k'" "k' \<le> y" by blast
    from m'(1) k'(1) have "k' \<in> set ?firsts" unfolding set_firsts by blast
    with fin have "Min (set ?firsts) \<le> k'" by simp
    with k'(2) show "Min (set ?firsts) \<le> y" by simp
  qed
  with cut show ?thesis by simp
qed

text \<open>
  C4. For every list of stop markers and every text at \<^verbatim>\<open>data.choices[0].content\<close>: when
  some marker occurs in the text, the call returns the text cut at the least index at
  which a marker starts, everything from that index on discarded; when no marker occurs,
  it returns the text unchanged. The witness is the example of the specification: the
  reply \<^verbatim>\<open>I am a model.\<close> with the marker \<^verbatim>\<open>am\<close> gives \<^verbatim>\<open>I \<close>, and with a marker that
  does not occur gives the whole text.
\<close>

theorem stop_markers_truncate_at_earliest:
  assumes "received (ChatGLM_call e self prompt (Some stop) kwargs) = Some response"
    and "status_code response = 200"
    and "json_result response = Inr (PyDict body)"
    and "map_of body ''data'' = Some (PyDict data)"
    and "map_of data ''choices'' = Some (PyList (PyDict choice # others))"
    and "map_of choice ''content'' = Some (PyStr t)"
  shows "((\<exists>i. marker_at stop t i) \<longrightarrow>
            result (ChatGLM_call e self prompt (Some stop) kwargs)
              = Inr (PyStr (take (LEAST i. marker_at stop t i) t)))
       \<and> ((\<forall>i. \<not> marker_at stop t i) \<longrightarrow>
            result (ChatGLM_call e self prompt (Some stop) kwargs) = Inr (PyStr t))"
proof -
  have "extract_text e response = Inr (PyStr t, PyDict body)"
    using assms(3-6) by (rule extract_text_shaped)
  then have "fst (after_post e self (Some stop) (Inr response))
      = Inr (PyStr (enforce_stop_tokens t stop))"
    using assms(2,4,5)
    by (simp add: after_post_def finish_def stop_text_def getitem_str_def)
  with received_call [OF assms(1)]
  have r: "result (ChatGLM_call e self prompt (Some stop) kwargs)
      = Inr (PyStr (enforce_stop_tokens t stop))" by simp
  show ?thesis
  proof (intro conjI impI)
    assume "\<exists>i. marker_at stop t i"
    then obtain i where "marker_at stop t i" by blast
    then have "enforce_stop_tokens t stop = take (LEAST k. marker_at stop t k) t"
      by (rule enforce_stop_tokens_least)
    with r show "result (ChatGLM_call e self prompt (Some stop) kwargs)
              = Inr (PyStr (take (LEAST i. marker_at stop t i) t))" by simp
  next
    assume "\<forall>i. \<not> marker_at stop t i"
    then have "enforce_stop_tokens t stop = t" by (rule enforce_stop_tokens_none)
    with r show "result (ChatGLM_call e self prompt (Some stop) kwargs) = Inr (PyStr t)"
      by simp
  qed
qed

lemma am_first_at_2: "(LEAST i. marker_at [''am''] ''I am a model.'' i) = 2"
proof (rule Least_equality)
  show "marker_at [''am''] ''I am a model.'' 2"
    by (simp add: marker_at_def occurs_at_def)
next
  fix y
  assume m: "marker_at [''am''] ''I am a model.'' y"
  show "2 \<le> y"
  proof (rule ccontr)
    assume "\<not> 2 \<le> y"
    then have "y = 0 \<or> y = 1" by auto
    with m show False by (auto simp: marker_at_def occurs_at_def)
  qed
qed

lemma xyz_nowhere: "\<forall>i. \<not> marker_at [''xyz''] ''I am a model.'' i"
proof -
  have "find_marker ''xyz'' ''I am a model.'' = None" by simp
  then show ?thesis by (simp add: marker_at_def find_marker_None)
qed

theorem stop_markers_truncate_at_earliest_witness:
  "marker_at [''am''] ''I am a model.'' 2
   \<and> result (ChatGLM_call (env_replying model_reply) keyed_client ''Who are you?''
        (Some [''am'']) []) = Inr (PyStr ''I '')
   \<and> result (ChatGLM_call (env_replying model_reply) keyed_client ''Who are you?''
        (Some [''xyz'']) []) = Inr (PyStr ''I am a model.'')"
proof -
  have s: "status_code model_reply = 200" by (simp add: model_reply_def json_reply_def)
  have j: "json_result model_reply = Inr (PyDict [(''data'', PyDict [(''choices'',
          PyList [PyDict [(''content'', PyStr ''I am a model.'')]])])])"
    by (simp add: model_reply_def json_reply_def)
  have d: "map_of [(''data'', PyDict [(''choices'',
          PyList [PyDict [(''content'', PyStr ''I am a model.'')]])])] ''data''
        = Some (PyDict [(''choices'', PyList [PyDict [(''content'', PyStr ''I am a model.'')]])])"
    by simp
  have c: "map_of [(''choices'', PyList [PyDict [(''content'', PyStr ''I am a model.'')]])] ''choices''
        = Some (PyList (PyDict [(''content'', PyStr ''I am a model.'')] # []))"
    by simp
  have t: "map_of [(''content'', PyStr ''I am a model.'')] ''content''
        = Some (PyStr ''I am a model.'')"
    by simp
  have m: "marker_at [''am''] ''I am a model.'' 2"
    by (simp add: marker_at_def occurs_at_def)
  from stop_markers_truncate_at_earliest [OF received_sample s j d c t, of "[''am'']"] m
  have "result (ChatGLM_call (env_replying model_reply) keyed_client ''Who are you?''
        (Some [''am'']) []) = Inr (PyStr (take (LEAST i. marker_at [''am''] ''I am a model.'' i)
          ''I am a model.''))"
    by blast
  then have 1: "result (ChatGLM_call (env_replying model_reply) keyed_client ''Who are you?''
        (Some [''am'']) []) = Inr (PyStr ''I '')"
    by (simp add: am_first_at_2)
  from stop_markers_truncate_at_earliest [OF received_sample s j d c t, of "[''xyz'']"]
    xyz_nowhere
  have 2: "result (ChatGLM_call (env_replying model_reply) keyed_client ''Who are you?''
        (Some [''xyz'']) []) = Inr (PyStr ''I am a model.'')"
    by blast
  from m 1 2 show ?thesis by blast
qed

end
